theory Spec2Isabelle
  imports Main "HOL-Library.Sublist"
begin

section \<open>Data model of the step-wise OpenAI agent engine\<close>

text \<open>
  The development embeds \<^verbatim>\<open>llama_index/agent/v1/openai.py\<close>. Python exceptions are
  values of \<open>error\<close>; a function that can raise returns \<open>error + 'a\<close> with \<open>Inl\<close>
  the exception. Objects the engine mutates (the conversation memory and the scratch
  dictionary of a step) are fields of the step record, which the functions take and
  return updated, also when they raise.
\<close>

datatype error =
    ValueError string
  | AssertionError
  | KeyError string
  | IndexError
  | NotImplementedError
  | TypeError
  | JSONDecodeError
  | ToolException string

text \<open>
  JSON-like values: the parsed arguments of a tool call, the OpenAI description of a tool
  and the \<^verbatim>\<open>tool_choice\<close> argument (\<^verbatim>\<open>Union[str, dict]\<close>).
\<close>

datatype json = JStr string | JInt int | JDict "(string \<times> json) list"

text \<open>\<^verbatim>\<open>raw_output\<close> of a ToolOutput: the value a tool returned, or the exception caught.\<close>

datatype raw_output = RawValue json | RawError string

record tool_output =
  content :: string
  tool_name :: string
  raw_input :: json
  raw_output :: raw_output

text \<open>
  Modelled from the spec: the class ToolOutput is not under src/; "human-readable content"
  is what \<^verbatim>\<open>str(output)\<close> gives.
\<close>

definition str_tool_output :: "tool_output \<Rightarrow> string" where
  "str_tool_output out = content out"

text \<open>
  A tool (\<^verbatim>\<open>BaseTool\<close>): its metadata name, its OpenAI description, its blocking call and
  its non-blocking call (what \<^verbatim>\<open>adapt_to_async_tool(tool).acall\<close> runs). A call
  returns the output, or \<open>Inl\<close> the text of the exception the tool raised.
\<close>

record tool =
  metadata_name :: string
  to_openai_tool :: json
  call :: "json \<Rightarrow> string + tool_output"
  acall :: "json \<Rightarrow> string + tool_output"

text \<open>
  An OpenAI tool call. Every field is optional in the client library; an element of the
  \<^verbatim>\<open>tool_calls\<close> list that is not an instance of the tool-call classes is
  \<open>NotAToolCall\<close>.
\<close>

record function_call =
  fn_name :: "string option"
  fn_arguments :: "string option"

record tool_call =
  tc_id :: "string option"
  tc_type :: "string option"
  tc_function :: "function_call option"

datatype tool_call_obj = OpenAIToolCall tool_call | NotAToolCall

datatype message_role = SYSTEM | USER | ASSISTANT | TOOL

text \<open>
  A chat message; of \<^verbatim>\<open>additional_kwargs\<close> the three keys the engine reads or writes.
\<close>

record chat_message =
  role :: message_role
  msg_content :: "string option"
  kw_tool_calls :: "tool_call_obj list option"
  kw_name :: "string option"
  kw_tool_call_id :: "string option"

text \<open>
  Modelled from the spec: the memory class (\<^verbatim>\<open>BaseMemory\<close>) is not under src/; the
  conversation log is an ordered message list, \<^verbatim>\<open>put\<close> appends one message,
  \<^verbatim>\<open>get\<close> and \<^verbatim>\<open>get_all\<close> return the whole log.
\<close>

type_synonym memory = "chat_message list"

definition put :: "memory \<Rightarrow> chat_message \<Rightarrow> memory" where
  "put mem m = mem @ [m]"

definition get_all :: "memory \<Rightarrow> chat_message list" where
  "get_all mem = mem"

definition get :: "memory \<Rightarrow> chat_message list" where
  "get mem = mem"

text \<open>
  The scratch dictionary of a step, restricted to the two keys the engine uses; a key that
  is absent is \<open>None\<close>, and reading it raises KeyError.
\<close>

record step_state =
  sources :: "tool_output list option"
  n_function_calls :: "int option"

datatype agent_chat_response =
    AgentChatResponse (response: string) (response_sources: "tool_output list")
  | StreamingAgentChatResponse (response_sources: "tool_output list")

datatype step_input = InputStr string | InputResponse agent_chat_response

record task_step =
  task_id :: string
  step_id :: string
  step_input :: step_input
  memory :: memory
  step_state :: step_state

record task =
  task_task_id :: string
  task_input :: string
  task_memory :: memory

record task_step_output =
  tso_output :: agent_chat_response
  tso_task_step :: task_step
  is_last :: bool
  next_steps :: "task_step list"

datatype chat_response_mode = WAIT | STREAM | OTHER_MODE

record chat_kwargs =
  messages :: "chat_message list"
  kw_tools :: "json list option"
  kw_tool_choice :: "json option"

text \<open>
  The engine and its collaborators. \<open>llm_chat\<close> and \<open>llm_achat\<close> are the model client
  (the reply message of the ChatResponse); \<open>get_tools\<close> is the tool resolver;
  \<open>json_loads\<close> is \<^verbatim>\<open>json.loads\<close> (\<open>None\<close> on malformed text); \<open>uuid4\<close> is the
  identifier the next draw of \<^verbatim>\<open>str(uuid.uuid4())\<close> gives (that two draws differ is not
  modelled). The stream relay runs a background thread and is taken as a parameter. The
  class TaskStep is not under src/: \<open>default_step_state\<close> is the scratch dictionary of a
  TaskStep constructed without \<^verbatim>\<open>step_state\<close>. The model client is taken to answer
  every call; the verbose printing and the callback events are left out.
\<close>

record engine =
  llm_chat :: "chat_kwargs \<Rightarrow> chat_message"
  llm_achat :: "chat_kwargs \<Rightarrow> chat_message"
  get_tools :: "string \<Rightarrow> tool list"
  prefix_messages :: "chat_message list"
  verbose :: bool
  max_function_calls :: int
  json_loads :: "string \<Rightarrow> json option"
  uuid4 :: string
  default_step_state :: step_state
  get_stream_ai_response :: "task_step \<Rightarrow> chat_kwargs \<Rightarrow> (error + agent_chat_response) \<times> task_step"
  get_async_stream_ai_response :: "task_step \<Rightarrow> chat_kwargs \<Rightarrow> (error + agent_chat_response) \<times> task_step"

definition DEFAULT_MAX_FUNCTION_CALLS :: int where
  "DEFAULT_MAX_FUNCTION_CALLS = 5"

section \<open>Module-level functions\<close>

text \<open>
  \<^verbatim>\<open>name_to_tool = {tool.metadata.name: tool for tool in tools}\<close>: a later tool of the
  same name replaces an earlier one.
\<close>

definition name_to_tool :: "tool list \<Rightarrow> (string \<rightharpoonup> tool)" where
  "name_to_tool tools = foldl (\<lambda>m t. m(metadata_name t \<mapsto> t)) Map.empty tools"

definition get_function_by_name :: "tool list \<Rightarrow> string \<Rightarrow> error + tool" where
  "get_function_by_name tools name =
     (case name_to_tool tools name of
        None \<Rightarrow> Inl (ValueError (''Tool with name '' @ name @ '' not found''))
      | Some t \<Rightarrow> Inr t)"

definition call_tool_with_error_handling ::
  "tool \<Rightarrow> json \<Rightarrow> string option \<Rightarrow> bool \<Rightarrow> error + tool_output" where
  "call_tool_with_error_handling t input_dict error_message raise_error =
     (case call t input_dict of
        Inr out \<Rightarrow> Inr out
      | Inl e \<Rightarrow>
          if raise_error then Inl (ToolException e)
          else Inr \<lparr> content = (case error_message of
                                  None \<Rightarrow> ''Error: '' @ e
                                | Some m \<Rightarrow> if m = [] then ''Error: '' @ e else m),
                     tool_name = metadata_name t,
                     raw_input = JDict [(''kwargs'', input_dict)],
                     raw_output = RawError e \<rparr>)"

definition tool_message :: "string \<Rightarrow> string \<Rightarrow> tool_output \<Rightarrow> chat_message" where
  "tool_message name call_id out =
     \<lparr> role = TOOL, msg_content = Some (str_tool_output out), kw_tool_calls = None,
       kw_name = Some name, kw_tool_call_id = Some call_id \<rparr>"

definition call_function ::
  "(string \<Rightarrow> json option) \<Rightarrow> tool list \<Rightarrow> tool_call \<Rightarrow> bool \<Rightarrow> error + (chat_message \<times> tool_output)" where
  "call_function loads tools tc vb =
     (case tc_id tc of None \<Rightarrow> Inl AssertionError | Some call_id \<Rightarrow>
     (case tc_function tc of None \<Rightarrow> Inl AssertionError | Some fc \<Rightarrow>
     (case fn_name fc of None \<Rightarrow> Inl AssertionError | Some name \<Rightarrow>
     (case fn_arguments fc of None \<Rightarrow> Inl AssertionError | Some arguments_str \<Rightarrow>
     (case get_function_by_name tools name of Inl e \<Rightarrow> Inl e | Inr t \<Rightarrow>
     (case loads arguments_str of None \<Rightarrow> Inl JSONDecodeError | Some argument_dict \<Rightarrow>
     (case call_tool_with_error_handling t argument_dict None False of
        Inl e \<Rightarrow> Inl e
      | Inr out \<Rightarrow> Inr (tool_message name call_id out, out))))))))"

definition acall_function ::
  "(string \<Rightarrow> json option) \<Rightarrow> tool list \<Rightarrow> tool_call \<Rightarrow> bool \<Rightarrow> error + (chat_message \<times> tool_output)" where
  "acall_function loads tools tc vb =
     (case tc_id tc of None \<Rightarrow> Inl AssertionError | Some call_id \<Rightarrow>
     (case tc_function tc of None \<Rightarrow> Inl AssertionError | Some fc \<Rightarrow>
     (case fn_name fc of None \<Rightarrow> Inl AssertionError | Some name \<Rightarrow>
     (case fn_arguments fc of None \<Rightarrow> Inl AssertionError | Some arguments_str \<Rightarrow>
     (case get_function_by_name tools name of Inl e \<Rightarrow> Inl e | Inr t \<Rightarrow>
     (case loads arguments_str of None \<Rightarrow> Inl JSONDecodeError | Some argument_dict \<Rightarrow>
     (case acall t argument_dict of
        Inl e \<Rightarrow> Inl (ToolException e)
      | Inr out \<Rightarrow> Inr (tool_message name call_id out, out))))))))"

definition resolve_tool_choice :: "json \<Rightarrow> json" where
  "resolve_tool_choice tool_choice =
     (case tool_choice of
        JStr s \<Rightarrow>
          if s \<notin> set [''none'', ''auto'']
          then JDict [(''type'', JStr ''function''), (''function'', JDict [(''name'', JStr s)])]
          else tool_choice
      | _ \<Rightarrow> tool_choice)"

section \<open>The step engine\<close>

definition should_continue :: "engine \<Rightarrow> tool_call_obj list option \<Rightarrow> int \<Rightarrow> bool" where
  "should_continue eng tool_calls n =
     (if n > max_function_calls eng then False
      else if (case tool_calls of None \<Rightarrow> True | Some tcs \<Rightarrow> tcs = []) then False
      else True)"

definition get_all_messages :: "engine \<Rightarrow> task_step \<Rightarrow> chat_message list" where
  "get_all_messages eng step = prefix_messages eng @ get (memory step)"

text \<open>\<^verbatim>\<open>step.memory.get_all()[-1]\<close> raises IndexError on an empty log.\<close>

definition get_latest_tool_calls :: "task_step \<Rightarrow> error + tool_call_obj list option" where
  "get_latest_tool_calls step =
     (if get_all (memory step) = [] then Inl IndexError
      else Inr (kw_tool_calls (last (get_all (memory step)))))"

definition get_llm_chat_kwargs :: "engine \<Rightarrow> task_step \<Rightarrow> json list \<Rightarrow> json \<Rightarrow> chat_kwargs" where
  "get_llm_chat_kwargs eng step openai_tools tool_choice =
     (if openai_tools \<noteq> []
      then \<lparr> messages = get_all_messages eng step, kw_tools = Some openai_tools,
             kw_tool_choice = Some (resolve_tool_choice tool_choice) \<rparr>
      else \<lparr> messages = get_all_messages eng step, kw_tools = None, kw_tool_choice = None \<rparr>)"

text \<open>\<^verbatim>\<open>str(ai_message.content)\<close>: the content of a message may be None.\<close>

definition str_content :: "string option \<Rightarrow> string" where
  "str_content c = (case c of None \<Rightarrow> ''None'' | Some text \<Rightarrow> text)"

text \<open>
  The reply is put into the memory first; reading \<^verbatim>\<open>step.step_state["sources"]\<close>
  comes second, so a KeyError there leaves the reply in the log.
\<close>

definition process_message :: "task_step \<Rightarrow> chat_message \<Rightarrow> (error + agent_chat_response) \<times> task_step" where
  "process_message step ai_message =
     (let step1 = step\<lparr>memory := put (memory step) ai_message\<rparr>
      in case sources (step_state step1) of
           None \<Rightarrow> (Inl (KeyError ''sources''), step1)
         | Some srcs \<Rightarrow> (Inr (AgentChatResponse (str_content (msg_content ai_message)) srcs), step1))"

definition get_agent_response ::
  "engine \<Rightarrow> task_step \<Rightarrow> chat_response_mode \<Rightarrow> chat_kwargs \<Rightarrow> (error + agent_chat_response) \<times> task_step" where
  "get_agent_response eng step mode llm_chat_kwargs =
     (case mode of
        WAIT \<Rightarrow> process_message step (llm_chat eng llm_chat_kwargs)
      | STREAM \<Rightarrow> get_stream_ai_response eng step llm_chat_kwargs
      | OTHER_MODE \<Rightarrow> (Inl NotImplementedError, step))"

definition get_async_agent_response ::
  "engine \<Rightarrow> task_step \<Rightarrow> chat_response_mode \<Rightarrow> chat_kwargs \<Rightarrow> (error + agent_chat_response) \<times> task_step" where
  "get_async_agent_response eng step mode llm_chat_kwargs =
     (case mode of
        WAIT \<Rightarrow> process_message step (llm_achat eng llm_chat_kwargs)
      | STREAM \<Rightarrow> get_async_stream_ai_response eng step llm_chat_kwargs
      | OTHER_MODE \<Rightarrow> (Inl NotImplementedError, step))"

text \<open>
  The method \<^verbatim>\<open>_call_function\<close>: the event payload looks the tool up before the call, so
  an unknown name raises there. The callback events are instrumentation and are left out.
  The result is the memory and the sources list after the two appends; when the method
  raises, neither has been touched.
\<close>

definition priv_call_function ::
  "engine \<Rightarrow> tool list \<Rightarrow> tool_call \<Rightarrow> memory \<Rightarrow> tool_output list \<Rightarrow> error + (memory \<times> tool_output list)" where
  "priv_call_function eng tools tc mem srcs =
     (case tc_function tc of None \<Rightarrow> Inl AssertionError | Some fc \<Rightarrow>
     (case fn_name fc of None \<Rightarrow> Inl AssertionError | Some name \<Rightarrow>
     (case fn_arguments fc of None \<Rightarrow> Inl AssertionError | Some arguments_str \<Rightarrow>
     (case get_function_by_name tools name of Inl e \<Rightarrow> Inl e | Inr t \<Rightarrow>
     (case call_function (json_loads eng) tools tc (verbose eng) of
        Inl e \<Rightarrow> Inl e
      | Inr (function_message, out) \<Rightarrow> Inr (put mem function_message, srcs @ [out]))))))"

definition priv_acall_function ::
  "engine \<Rightarrow> tool list \<Rightarrow> tool_call \<Rightarrow> memory \<Rightarrow> tool_output list \<Rightarrow> error + (memory \<times> tool_output list)" where
  "priv_acall_function eng tools tc mem srcs =
     (case tc_function tc of None \<Rightarrow> Inl AssertionError | Some fc \<Rightarrow>
     (case fn_name fc of None \<Rightarrow> Inl AssertionError | Some name \<Rightarrow>
     (case fn_arguments fc of None \<Rightarrow> Inl AssertionError | Some arguments_str \<Rightarrow>
     (case get_function_by_name tools name of Inl e \<Rightarrow> Inl e | Inr t \<Rightarrow>
     (case acall_function (json_loads eng) tools tc (verbose eng) of
        Inl e \<Rightarrow> Inl e
      | Inr (function_message, out) \<Rightarrow> Inr (put mem function_message, srcs @ [out]))))))"

definition initialize_step :: "engine \<Rightarrow> task \<Rightarrow> task_step" where
  "initialize_step eng tsk =
     \<lparr> task_id = task_task_id tsk, step_id = uuid4 eng, step_input = InputStr (task_input tsk),
       memory = task_memory tsk,
       step_state = \<lparr> sources = Some [], n_function_calls = Some 0 \<rparr> \<rparr>"

text \<open>
  \<^verbatim>\<open>if tool_choice not in ("auto", "none"): tool_choice = "auto"\<close>, on the local variable of
  the running step.
\<close>

definition reset_tool_choice :: "json \<Rightarrow> json" where
  "reset_tool_choice tool_choice =
     (if tool_choice \<notin> set [JStr ''auto'', JStr ''none''] then JStr ''auto'' else tool_choice)"

text \<open>
  The \<^verbatim>\<open>for tool_call in ...\<close> loop of \<^verbatim>\<open>_run_step\<close>. The result is the exception that
  stopped the loop, if any, the step as the loop left it, and the final value of the local
  variable \<^verbatim>\<open>tool_choice\<close>.
\<close>

fun run_tool_calls ::
  "engine \<Rightarrow> tool list \<Rightarrow> tool_call_obj list \<Rightarrow> task_step \<Rightarrow> json \<Rightarrow> error option \<times> task_step \<times> json" where
  "run_tool_calls eng tools [] step tool_choice = (None, step, tool_choice)"
| "run_tool_calls eng tools (tco # rest) step tool_choice =
     (case tco of
        NotAToolCall \<Rightarrow> (Some (ValueError ''Invalid tool_call object''), step, tool_choice)
      | OpenAIToolCall tc \<Rightarrow>
          if tc_type tc \<noteq> Some ''function''
          then (Some (ValueError ''Invalid tool type. Unsupported by OpenAI''), step, tool_choice)
          else (case sources (step_state step) of
                  None \<Rightarrow> (Some (KeyError ''sources''), step, tool_choice)
                | Some srcs \<Rightarrow>
                   (case priv_call_function eng tools tc (memory step) srcs of
                      Inl e \<Rightarrow> (Some e, step, tool_choice)
                    | Inr (mem1, srcs1) \<Rightarrow>
                       (let step1 = step\<lparr>memory := mem1,
                                         step_state := (step_state step)\<lparr>sources := Some srcs1\<rparr>\<rparr>;
                            tool_choice1 = reset_tool_choice tool_choice
                        in case n_function_calls (step_state step1) of
                             None \<Rightarrow> (Some (KeyError ''n_function_calls''), step1, tool_choice1)
                           | Some n \<Rightarrow>
                               run_tool_calls eng tools rest
                                 (step1\<lparr>step_state := (step_state step1)\<lparr>n_function_calls := Some (n + 1)\<rparr>\<rparr>)
                                 tool_choice1))))"

fun arun_tool_calls ::
  "engine \<Rightarrow> tool list \<Rightarrow> tool_call_obj list \<Rightarrow> task_step \<Rightarrow> json \<Rightarrow> error option \<times> task_step \<times> json" where
  "arun_tool_calls eng tools [] step tool_choice = (None, step, tool_choice)"
| "arun_tool_calls eng tools (tco # rest) step tool_choice =
     (case tco of
        NotAToolCall \<Rightarrow> (Some (ValueError ''Invalid tool_call object''), step, tool_choice)
      | OpenAIToolCall tc \<Rightarrow>
          if tc_type tc \<noteq> Some ''function''
          then (Some (ValueError ''Invalid tool type. Unsupported by OpenAI''), step, tool_choice)
          else (case sources (step_state step) of
                  None \<Rightarrow> (Some (KeyError ''sources''), step, tool_choice)
                | Some srcs \<Rightarrow>
                   (case priv_acall_function eng tools tc (memory step) srcs of
                      Inl e \<Rightarrow> (Some e, step, tool_choice)
                    | Inr (mem1, srcs1) \<Rightarrow>
                       (let step1 = step\<lparr>memory := mem1,
                                         step_state := (step_state step)\<lparr>sources := Some srcs1\<rparr>\<rparr>;
                            tool_choice1 = reset_tool_choice tool_choice
                        in case n_function_calls (step_state step1) of
                             None \<Rightarrow> (Some (KeyError ''n_function_calls''), step1, tool_choice1)
                           | Some n \<Rightarrow>
                               arun_tool_calls eng tools rest
                                 (step1\<lparr>step_state := (step_state step1)\<lparr>n_function_calls := Some (n + 1)\<rparr>\<rparr>)
                                 tool_choice1))))"

text \<open>
  The AgentChatResponse built by \<open>process_message\<close> holds the sources list of the step
  itself, not a copy: what the caller reads in it is the list as the tool calls left it.
\<close>

definition current_response :: "agent_chat_response \<Rightarrow> task_step \<Rightarrow> agent_chat_response" where
  "current_response r step =
     (case r of
        AgentChatResponse text srcs \<Rightarrow>
          AgentChatResponse text (case sources (step_state step) of None \<Rightarrow> srcs | Some s \<Rightarrow> s)
      | StreamingAgentChatResponse srcs \<Rightarrow> r)"

text \<open>
  The end of \<^verbatim>\<open>_run_step\<close>: the follow-up step is built from the task id, a new
  identifier, the response and the memory, without \<^verbatim>\<open>step_state\<close>.
\<close>

definition make_output :: "engine \<Rightarrow> agent_chat_response \<Rightarrow> task_step \<Rightarrow> bool \<Rightarrow> task_step_output" where
  "make_output eng agent_chat_response step is_done =
     (let r = current_response agent_chat_response step;
          new_steps = (if \<not> is_done
                       then [\<lparr> task_id = task_id step, step_id = uuid4 eng,
                               step_input = InputResponse r, memory = memory step,
                               step_state = default_step_state eng \<rparr>]
                       else [])
      in \<lparr> tso_output = r, tso_task_step = step, is_last = is_done, next_steps = new_steps \<rparr>)"

definition priv_run_step ::
  "engine \<Rightarrow> task_step \<Rightarrow> task \<Rightarrow> chat_response_mode \<Rightarrow> json \<Rightarrow> (error + task_step_output) \<times> task_step" where
  "priv_run_step eng step tsk mode tool_choice =
     (let tools = get_tools eng (task_input tsk);
          openai_tools = map to_openai_tool tools;
          llm_chat_kwargs = get_llm_chat_kwargs eng step openai_tools tool_choice
      in case get_agent_response eng step mode llm_chat_kwargs of
           (Inl e, step1) \<Rightarrow> (Inl e, step1)
         | (Inr agent_chat_response, step1) \<Rightarrow>
            (case get_latest_tool_calls step1 of
               Inl e \<Rightarrow> (Inl e, step1)
             | Inr tool_calls \<Rightarrow>
                (case n_function_calls (step_state step1) of
                   None \<Rightarrow> (Inl (KeyError ''n_function_calls''), step1)
                 | Some n \<Rightarrow>
                    if \<not> should_continue eng tool_calls n
                    then (Inr (make_output eng agent_chat_response step1 True), step1)
                    else (case tool_calls of
                            None \<Rightarrow> (Inl TypeError, step1)
                          | Some tcs \<Rightarrow>
                             (case run_tool_calls eng tools tcs step1 tool_choice of
                                (Some e, step2, tc2) \<Rightarrow> (Inl e, step2)
                              | (None, step2, tc2) \<Rightarrow>
                                  (Inr (make_output eng agent_chat_response step2 False), step2))))))"

definition priv_arun_step ::
  "engine \<Rightarrow> task_step \<Rightarrow> task \<Rightarrow> chat_response_mode \<Rightarrow> json \<Rightarrow> (error + task_step_output) \<times> task_step" where
  "priv_arun_step eng step tsk mode tool_choice =
     (let tools = get_tools eng (task_input tsk);
          openai_tools = map to_openai_tool tools;
          llm_chat_kwargs = get_llm_chat_kwargs eng step openai_tools tool_choice
      in case get_async_agent_response eng step mode llm_chat_kwargs of
           (Inl e, step1) \<Rightarrow> (Inl e, step1)
         | (Inr agent_chat_response, step1) \<Rightarrow>
            (case get_latest_tool_calls step1 of
               Inl e \<Rightarrow> (Inl e, step1)
             | Inr tool_calls \<Rightarrow>
                (case n_function_calls (step_state step1) of
                   None \<Rightarrow> (Inl (KeyError ''n_function_calls''), step1)
                 | Some n \<Rightarrow>
                    if \<not> should_continue eng tool_calls n
                    then (Inr (make_output eng agent_chat_response step1 True), step1)
                    else (case tool_calls of
                            None \<Rightarrow> (Inl TypeError, step1)
                          | Some tcs \<Rightarrow>
                             (case arun_tool_calls eng tools tcs step1 tool_choice of
                                (Some e, step2, tc2) \<Rightarrow> (Inl e, step2)
                              | (None, step2, tc2) \<Rightarrow>
                                  (Inr (make_output eng agent_chat_response step2 False), step2))))))"

text \<open>
  The public entry points. \<^verbatim>\<open>kwargs.get("tool_choice", "auto")\<close>: the argument is the
  value under the key, or \<open>None\<close> when the caller gave none.
\<close>

definition kwargs_get_tool_choice :: "json option \<Rightarrow> json" where
  "kwargs_get_tool_choice kw = (case kw of None \<Rightarrow> JStr ''auto'' | Some tc \<Rightarrow> tc)"

definition run_step :: "engine \<Rightarrow> task_step \<Rightarrow> task \<Rightarrow> json option \<Rightarrow> (error + task_step_output) \<times> task_step" where
  "run_step eng step tsk kw = priv_run_step eng step tsk WAIT (kwargs_get_tool_choice kw)"

definition arun_step :: "engine \<Rightarrow> task_step \<Rightarrow> task \<Rightarrow> json option \<Rightarrow> (error + task_step_output) \<times> task_step" where
  "arun_step eng step tsk kw = priv_arun_step eng step tsk WAIT (kwargs_get_tool_choice kw)"

definition stream_step :: "engine \<Rightarrow> task_step \<Rightarrow> task \<Rightarrow> json option \<Rightarrow> (error + task_step_output) \<times> task_step" where
  "stream_step eng step tsk kw = (Inl NotImplementedError, step)"

definition astream_step :: "engine \<Rightarrow> task_step \<Rightarrow> task \<Rightarrow> json option \<Rightarrow> (error + task_step_output) \<times> task_step" where
  "astream_step eng step tsk kw = (Inl NotImplementedError, step)"

section \<open>Notions the statements use\<close>

text \<open>
  The reply the model gives in a blocking step (the argument of \<open>process_message\<close> in
  \<open>priv_run_step\<close>), the directives a reply carries, and the correlation identifier of a
  directive.
\<close>

definition model_reply :: "engine \<Rightarrow> task_step \<Rightarrow> task \<Rightarrow> json \<Rightarrow> chat_message" where
  "model_reply eng step tsk tool_choice =
     llm_chat eng (get_llm_chat_kwargs eng step
       (map to_openai_tool (get_tools eng (task_input tsk))) tool_choice)"

definition directives :: "chat_message \<Rightarrow> tool_call_obj list" where
  "directives m = (case kw_tool_calls m of None \<Rightarrow> [] | Some tcs \<Rightarrow> tcs)"

definition directive_id :: "tool_call_obj \<Rightarrow> string option" where
  "directive_id tco = (case tco of OpenAIToolCall tc \<Rightarrow> tc_id tc | NotAToolCall \<Rightarrow> None)"

text \<open>
  A directive the loop gets through: an instance of the tool-call classes, of kind
  "function", on which \<open>call_function\<close> returns. A directive the per-directive validation
  rejects, and the exception it raises there.
\<close>

definition processable :: "engine \<Rightarrow> tool list \<Rightarrow> tool_call_obj \<Rightarrow> bool" where
  "processable eng tools tco =
     (case tco of
        NotAToolCall \<Rightarrow> False
      | OpenAIToolCall tc \<Rightarrow>
          tc_type tc = Some ''function'' \<and>
          (case call_function (json_loads eng) tools tc (verbose eng) of
             Inl e \<Rightarrow> False | Inr r \<Rightarrow> True))"

definition invalid_directive :: "tool_call_obj \<Rightarrow> bool" where
  "invalid_directive tco =
     (case tco of NotAToolCall \<Rightarrow> True | OpenAIToolCall tc \<Rightarrow> tc_type tc \<noteq> Some ''function'')"

definition validation_error :: "tool_call_obj \<Rightarrow> error" where
  "validation_error tco =
     (case tco of
        NotAToolCall \<Rightarrow> ValueError ''Invalid tool_call object''
      | OpenAIToolCall tc \<Rightarrow> ValueError ''Invalid tool type. Unsupported by OpenAI'')"

text \<open>The exception a call raised, if any, and the value it returned, if any.\<close>

definition raised :: "(error + 'a) \<times> task_step \<Rightarrow> error option" where
  "raised r = (case fst r of Inl e \<Rightarrow> Some e | Inr out \<Rightarrow> None)"

definition produced :: "(error + 'a) \<times> task_step \<Rightarrow> 'a option" where
  "produced r = (case fst r of Inl e \<Rightarrow> None | Inr out \<Rightarrow> Some out)"

section \<open>Concrete tools, replies and engines\<close>

text \<open>
  A tool that adds (it answers 4), a tool that always raises, and a parser that accepts
  the one argument text the example replies carry.
\<close>

definition add_tool :: tool where
  "add_tool =
     \<lparr> metadata_name = ''add'', to_openai_tool = JDict [(''name'', JStr ''add'')],
       call = (\<lambda>args. Inr \<lparr> content = ''4'', tool_name = ''add'', raw_input = args,
                               raw_output = RawValue (JInt 4) \<rparr>),
       acall = (\<lambda>args. Inr \<lparr> content = ''4'', tool_name = ''add'', raw_input = args,
                                raw_output = RawValue (JInt 4) \<rparr>) \<rparr>"

definition boom_tool :: tool where
  "boom_tool =
     \<lparr> metadata_name = ''boom'', to_openai_tool = JDict [(''name'', JStr ''boom'')],
       call = (\<lambda>args. Inl ''boom failed''),
       acall = (\<lambda>args. Inl ''boom failed'') \<rparr>"

definition example_loads :: "string \<Rightarrow> json option" where
  "example_loads text = (if text = ''{}'' then Some (JDict []) else None)"

definition example_call :: "string \<Rightarrow> string \<Rightarrow> string \<Rightarrow> tool_call" where
  "example_call call_id kind name =
     \<lparr> tc_id = Some call_id, tc_type = Some kind,
       tc_function = Some \<lparr> fn_name = Some name, fn_arguments = Some ''{}'' \<rparr> \<rparr>"

definition directive :: "string \<Rightarrow> string \<Rightarrow> string \<Rightarrow> tool_call_obj" where
  "directive call_id kind name = OpenAIToolCall (example_call call_id kind name)"

definition assistant_reply :: "string \<Rightarrow> tool_call_obj list option \<Rightarrow> chat_message" where
  "assistant_reply text tcs =
     \<lparr> role = ASSISTANT, msg_content = Some text, kw_tool_calls = tcs,
       kw_name = None, kw_tool_call_id = None \<rparr>"

text \<open>Replies that carry two directives for the adding tool, one, and one for the raising tool.\<close>

definition two_add_reply :: chat_message where
  "two_add_reply = assistant_reply ''x''
     (Some [directive ''c1'' ''function'' ''add'', directive ''c2'' ''function'' ''add''])"

definition one_add_reply :: chat_message where
  "one_add_reply = assistant_reply ''x'' (Some [directive ''c1'' ''function'' ''add''])"

definition boom_reply :: chat_message where
  "boom_reply = assistant_reply ''x'' (Some [directive ''c1'' ''function'' ''boom''])"

text \<open>
  An engine over the two tools whose model always returns the given reply, and a model
  that answers with the tool-selection policy it was called with.
\<close>

definition example_engine :: "int \<Rightarrow> chat_message \<Rightarrow> engine" where
  "example_engine max_calls reply =
     \<lparr> llm_chat = (\<lambda>kw. reply), llm_achat = (\<lambda>kw. reply),
       get_tools = (\<lambda>text. [add_tool, boom_tool]),
       prefix_messages = [], verbose = False, max_function_calls = max_calls,
       json_loads = example_loads, uuid4 = ''step-2'',
       default_step_state = \<lparr> sources = None, n_function_calls = None \<rparr>,
       get_stream_ai_response = (\<lambda>step kw. (Inl NotImplementedError, step)),
       get_async_stream_ai_response = (\<lambda>step kw. (Inl NotImplementedError, step)) \<rparr>"

definition policy_text :: "chat_kwargs \<Rightarrow> string" where
  "policy_text kw =
     (case kw_tool_choice kw of
        None \<Rightarrow> ''no policy''
      | Some (JStr s) \<Rightarrow> s
      | Some (JInt i) \<Rightarrow> ''number''
      | Some (JDict d) \<Rightarrow> ''forced'')"

definition echo_llm :: "chat_kwargs \<Rightarrow> chat_message" where
  "echo_llm kw = assistant_reply (policy_text kw) (Some [directive ''c1'' ''function'' ''add''])"

definition echo_engine :: engine where
  "echo_engine = (example_engine 5 (assistant_reply [] None))\<lparr> llm_chat := echo_llm, llm_achat := echo_llm \<rparr>"

definition user_message :: "string \<Rightarrow> chat_message" where
  "user_message text =
     \<lparr> role = USER, msg_content = Some text, kw_tool_calls = None,
       kw_name = None, kw_tool_call_id = None \<rparr>"

definition example_task :: task where
  "example_task =
     \<lparr> task_task_id = ''task-1'', task_input = ''What is 2+2?'',
       task_memory = [user_message ''What is 2+2?''] \<rparr>"

text \<open>A step of the example task whose counter stands at \<open>n\<close>.\<close>

definition example_step :: "int \<Rightarrow> task_step" where
  "example_step n =
     \<lparr> task_id = ''task-1'', step_id = ''step-1'', step_input = InputStr ''What is 2+2?'',
       memory = [user_message ''What is 2+2?''],
       step_state = \<lparr> sources = Some [], n_function_calls = Some n \<rparr> \<rparr>"

text \<open>
  A model that asks for the adding tool once and answers "4" when the log ends with a tool
  result, and the follow-up step the engine builds after the first step of that exchange.
\<close>

definition scenario_llm :: "chat_kwargs \<Rightarrow> chat_message" where
  "scenario_llm kw =
     (if messages kw \<noteq> [] \<and> role (last (messages kw)) = TOOL
      then assistant_reply ''4'' None
      else one_add_reply)"

definition scenario_engine :: engine where
  "scenario_engine = (example_engine 5 one_add_reply)\<lparr> llm_chat := scenario_llm, llm_achat := scenario_llm \<rparr>"

definition add_output :: tool_output where
  "add_output = \<lparr> content = ''4'', tool_name = ''add'', raw_input = JDict [],
                   raw_output = RawValue (JInt 4) \<rparr>"

definition follow_up_step :: task_step where
  "follow_up_step =
     \<lparr> task_id = ''task-1'', step_id = ''step-2'',
       step_input = InputResponse (AgentChatResponse ''x'' [add_output]),
       memory = [user_message ''What is 2+2?'', one_add_reply, tool_message ''add'' ''c1'' add_output],
       step_state = \<lparr> sources = None, n_function_calls = None \<rparr> \<rparr>"

section \<open>The tool-call loop\<close>

text \<open>
  What one tool call and the whole loop do to the memory, the sources and the counter.
\<close>

lemma call_function_message:
  assumes "call_function loads tools tc vb = Inr (m, out)"
  shows "role m = TOOL \<and> kw_tool_call_id m = tc_id tc \<and> msg_content m = Some (content out)
         \<and> (\<exists>fc. tc_function tc = Some fc \<and> kw_name m = fn_name fc)"
  using assms
  by (auto simp: call_function_def tool_message_def str_tool_output_def
           split: option.splits sum.splits)

lemma priv_call_function_appends:
  assumes "priv_call_function eng tools tc mem srcs = Inr (mem1, srcs1)"
  shows "\<exists>m out. mem1 = mem @ [m] \<and> srcs1 = srcs @ [out]
           \<and> call_function (json_loads eng) tools tc (verbose eng) = Inr (m, out)"
  using assms
  by (auto simp: priv_call_function_def put_def split: option.splits sum.splits)

lemma run_tool_calls_log:
  assumes "run_tool_calls eng tools tcs s c = (r, s', c')"
  shows "\<exists>msgs. memory s' = memory s @ msgs \<and> length msgs \<le> length tcs
           \<and> map kw_tool_call_id msgs = map directive_id (take (length msgs) tcs)
           \<and> list_all (\<lambda>m. role m = TOOL) msgs
           \<and> (r = None \<longrightarrow> length msgs = length tcs)"
  using assms
proof (induction tcs arbitrary: s c)
  case Nil
  then show ?case by simp
next
  case (Cons tco rest)
  show ?case
  proof (cases "\<exists>tc srcs mem1 srcs1. tco = OpenAIToolCall tc \<and> tc_type tc = Some ''function''
            \<and> sources (step_state s) = Some srcs
            \<and> priv_call_function eng tools tc (memory s) srcs = Inr (mem1, srcs1)")
    case True
    then obtain tc srcs mem1 srcs1 where h: "tco = OpenAIToolCall tc" "tc_type tc = Some ''function''"
        "sources (step_state s) = Some srcs"
        "priv_call_function eng tools tc (memory s) srcs = Inr (mem1, srcs1)" by blast
    define s1 where "s1 = s\<lparr>memory := mem1, step_state := (step_state s)\<lparr>sources := Some srcs1\<rparr>\<rparr>"
    from priv_call_function_appends[OF h(4)] obtain m0 out where
      a: "mem1 = memory s @ [m0]" "call_function (json_loads eng) tools tc (verbose eng) = Inr (m0, out)"
      by blast
    have id0: "kw_tool_call_id m0 = directive_id tco" "role m0 = TOOL"
      using call_function_message[OF a(2)] h(1) by (simp_all add: directive_id_def)
    have mem1: "memory s1 = memory s @ [m0]" by (simp add: s1_def a(1))
    show ?thesis
    proof (cases "n_function_calls (step_state s)")
      case None
      then have "r \<noteq> None" "s' = s1"
        using Cons.prems h by (auto simp: s1_def Let_def)
      then show ?thesis
        using mem1 id0 by (intro exI[of _ "[m0]"]) auto
    next
      case (Some n)
      define s2 where "s2 = s1\<lparr>step_state := (step_state s1)\<lparr>n_function_calls := Some (n + 1)\<rparr>\<rparr>"
      have run: "run_tool_calls eng tools rest s2 (reset_tool_choice c) = (r, s', c')"
        using Cons.prems h Some by (simp add: s1_def s2_def Let_def)
      from Cons.IH[OF run] obtain msgs where m: "memory s' = memory s2 @ msgs" "length msgs \<le> length rest"
        "map kw_tool_call_id msgs = map directive_id (take (length msgs) rest)"
        "list_all (\<lambda>m. role m = TOOL) msgs"
        "r = None \<longrightarrow> length msgs = length rest" by blast
      have mem2: "memory s2 = memory s @ [m0]" by (simp add: s2_def mem1)
      show ?thesis
        using m mem2 id0 by (intro exI[of _ "m0 # msgs"]) simp
    qed
  next
    case False
    then have "s' = s"
      using Cons.prems
      by (auto simp: Let_def split: tool_call_obj.splits if_splits option.splits sum.splits prod.splits)
    moreover have "r \<noteq> None"
      using Cons.prems False
      by (auto simp: Let_def split: tool_call_obj.splits if_splits option.splits sum.splits prod.splits)
    ultimately show ?thesis by simp
  qed
qed


lemma run_tool_calls_Cons_None:
  assumes "run_tool_calls eng tools (tco # rest) s c = (None, s', c')"
  shows "\<exists>tc srcs m out n. tco = OpenAIToolCall tc \<and> tc_type tc = Some ''function''
           \<and> sources (step_state s) = Some srcs \<and> n_function_calls (step_state s) = Some n
           \<and> call_function (json_loads eng) tools tc (verbose eng) = Inr (m, out)
           \<and> run_tool_calls eng tools rest
                (s\<lparr>memory := memory s @ [m],
                   step_state := (step_state s)\<lparr>sources := Some (srcs @ [out]), n_function_calls := Some (n + 1)\<rparr>\<rparr>)
                (reset_tool_choice c) = (None, s', c')"
proof -
  from assms obtain tc where tc: "tco = OpenAIToolCall tc" "tc_type tc = Some ''function''"
    by (auto split: tool_call_obj.splits if_splits)
  from assms tc obtain srcs where srcs: "sources (step_state s) = Some srcs"
    by (auto split: option.splits)
  from assms tc srcs obtain mem1 srcs1 where
    pc: "priv_call_function eng tools tc (memory s) srcs = Inr (mem1, srcs1)"
    by (auto split: sum.splits)
  from assms tc srcs pc obtain n where n: "n_function_calls (step_state s) = Some n"
    by (auto simp: Let_def split: option.splits)
  from priv_call_function_appends[OF pc] obtain m out where
    a: "mem1 = memory s @ [m]" "srcs1 = srcs @ [out]"
       "call_function (json_loads eng) tools tc (verbose eng) = Inr (m, out)" by blast
  have "run_tool_calls eng tools rest
          (s\<lparr>memory := memory s @ [m],
             step_state := (step_state s)\<lparr>sources := Some (srcs @ [out]), n_function_calls := Some (n + 1)\<rparr>\<rparr>)
          (reset_tool_choice c) = (None, s', c')"
    using assms tc srcs pc n a by (simp add: Let_def)
  then show ?thesis using tc srcs n a(3) by blast
qed

lemma run_tool_calls_effects:
  assumes "run_tool_calls eng tools tcs s c = (None, s', c')"
      and "sources (step_state s) = Some srcs"
      and "n_function_calls (step_state s) = Some n"
  shows "\<exists>msgs outs. memory s' = memory s @ msgs \<and> length msgs = length tcs
           \<and> sources (step_state s') = Some (srcs @ outs) \<and> length outs = length tcs
           \<and> n_function_calls (step_state s') = Some (n + int (length tcs))
           \<and> map msg_content msgs = map (\<lambda>out. Some (content out)) outs
           \<and> map kw_tool_call_id msgs = map directive_id tcs"
  using assms
proof (induction tcs arbitrary: s c srcs n)
  case Nil
  then show ?case by simp
next
  case (Cons tco rest)
  from run_tool_calls_Cons_None[OF Cons.prems(1)] obtain tc srcs0 m out n0 where
    h: "tco = OpenAIToolCall tc" "sources (step_state s) = Some srcs0"
       "n_function_calls (step_state s) = Some n0"
       "call_function (json_loads eng) tools tc (verbose eng) = Inr (m, out)"
       "run_tool_calls eng tools rest
          (s\<lparr>memory := memory s @ [m],
             step_state := (step_state s)\<lparr>sources := Some (srcs0 @ [out]), n_function_calls := Some (n0 + 1)\<rparr>\<rparr>)
          (reset_tool_choice c) = (None, s', c')"
    by blast
  have eq: "srcs0 = srcs" "n0 = n" using h(2,3) Cons.prems(2,3) by simp_all
  from Cons.IH[OF h(5)] obtain msgs outs where
    r: "memory s' = (memory s @ [m]) @ msgs" "length msgs = length rest"
       "sources (step_state s') = Some ((srcs0 @ [out]) @ outs)" "length outs = length rest"
       "n_function_calls (step_state s') = Some ((n0 + 1) + int (length rest))"
       "map msg_content msgs = map (\<lambda>out. Some (content out)) outs"
       "map kw_tool_call_id msgs = map directive_id rest"
    by force
  have m0: "msg_content m = Some (content out)" "kw_tool_call_id m = directive_id tco"
    using call_function_message[OF h(4)] h(1) by (simp_all add: directive_id_def)
  show ?case
    using r m0 eq by (intro exI[of _ "m # msgs"] exI[of _ "out # outs"]) simp
qed

lemma run_tool_calls_append:
  "run_tool_calls eng tools (xs @ ys) s c =
     (case run_tool_calls eng tools xs s c of
        (None, s1, c1) \<Rightarrow> run_tool_calls eng tools ys s1 c1
      | (Some e, s1, c1) \<Rightarrow> (Some e, s1, c1))"
  by (induction xs arbitrary: s c)
     (auto simp: Let_def split: tool_call_obj.splits option.splits sum.splits prod.splits)

lemma foldl_name_absent:
  "name \<notin> metadata_name ` set tools \<Longrightarrow>
     foldl (\<lambda>m t. m(metadata_name t \<mapsto> t)) m0 tools name = m0 name"
  by (induction tools arbitrary: m0) auto

lemma foldl_name_present:
  "foldl (\<lambda>m t. m(metadata_name t \<mapsto> t)) m0 tools name = Some t \<Longrightarrow>
     m0 name = Some t \<or> (t \<in> set tools \<and> metadata_name t = name)"
proof (induction tools arbitrary: m0)
  case Nil
  then show ?case by simp
next
  case (Cons a tools)
  have "foldl (\<lambda>m t. m(metadata_name t \<mapsto> t)) (m0(metadata_name a \<mapsto> a)) tools name = Some t"
    using Cons.prems by (simp only: foldl_Cons)
  from Cons.IH[OF this] show ?case
    by (auto split: if_splits)
qed

lemma get_function_by_name_absent:
  "name \<notin> metadata_name ` set tools \<Longrightarrow>
     get_function_by_name tools name = Inl (ValueError (''Tool with name '' @ name @ '' not found''))"
  by (simp add: get_function_by_name_def name_to_tool_def foldl_name_absent)

lemma get_function_by_name_member:
  "get_function_by_name tools name = Inr t \<Longrightarrow> t \<in> set tools \<and> metadata_name t = name"
  using foldl_name_present[of Map.empty tools name t]
  by (auto simp: get_function_by_name_def name_to_tool_def split: option.splits)

lemma priv_call_function_of_call_function:
  assumes "call_function (json_loads eng) tools tc (verbose eng) = Inr (m, out)"
  shows "priv_call_function eng tools tc mem srcs = Inr (mem @ [m], srcs @ [out])"
  using assms
  by (auto simp: priv_call_function_def call_function_def put_def split: option.splits sum.splits)

lemma run_tool_calls_complete:
  assumes "list_all (processable eng tools) tcs"
      and "sources (step_state s) = Some srcs"
      and "n_function_calls (step_state s) = Some n"
  shows "fst (run_tool_calls eng tools tcs s c) = None"
  using assms
proof (induction tcs arbitrary: s c srcs n)
  case Nil
  then show ?case by simp
next
  case (Cons tco rest)
  from Cons.prems(1) obtain tc m out where
    h: "tco = OpenAIToolCall tc" "tc_type tc = Some ''function''"
       "call_function (json_loads eng) tools tc (verbose eng) = Inr (m, out)"
    by (auto simp: processable_def split: tool_call_obj.splits sum.splits)
  have rest: "list_all (processable eng tools) rest" using Cons.prems(1) by simp
  show ?case
    using h(1,2) Cons.prems(2,3) priv_call_function_of_call_function[OF h(3)]
      Cons.IH[OF rest, of _ "srcs @ [out]" "n + 1"]
    by (simp add: Let_def)
qed

lemma run_tool_calls_invalid:
  assumes "invalid_directive bad"
  shows "run_tool_calls eng tools (bad # post) s c = (Some (validation_error bad), s, c)"
  using assms
  by (auto simp: invalid_directive_def validation_error_def split: tool_call_obj.splits)

lemma run_tool_calls_unresolvable:
  assumes "tc_type tc = Some ''function''" "tc_function tc = Some fc" "fn_name fc = Some name"
    "fn_arguments fc = Some arguments_str" "name \<notin> metadata_name ` set tools"
    "sources (step_state s) = Some srcs"
  shows "run_tool_calls eng tools (OpenAIToolCall tc # post) s c
           = (Some (ValueError (''Tool with name '' @ name @ '' not found'')), s, c)"
  using assms by (simp add: priv_call_function_def get_function_by_name_absent)

section \<open>One blocking step\<close>

text \<open>
  A blocking step in WAIT mode, with the reply of the model named: the reply is appended,
  the two keys of the scratch dictionary are read, and the continuation predicate decides
  between a terminal output and the tool-call loop.
\<close>

lemma priv_run_step_WAIT:
  "priv_run_step eng step tsk WAIT tc =
     (let reply = model_reply eng step tsk tc;
          step1 = step\<lparr>memory := memory step @ [reply]\<rparr>
      in case sources (step_state step) of
           None \<Rightarrow> (Inl (KeyError ''sources''), step1)
         | Some srcs \<Rightarrow>
            (case n_function_calls (step_state step) of
               None \<Rightarrow> (Inl (KeyError ''n_function_calls''), step1)
             | Some n \<Rightarrow>
                if \<not> should_continue eng (kw_tool_calls reply) n
                then (Inr (make_output eng (AgentChatResponse (str_content (msg_content reply)) srcs) step1 True), step1)
                else (case run_tool_calls eng (get_tools eng (task_input tsk)) (directives reply) step1 tc of
                        (Some e, step2, tc2) \<Rightarrow> (Inl e, step2)
                      | (None, step2, tc2) \<Rightarrow>
                          (Inr (make_output eng (AgentChatResponse (str_content (msg_content reply)) srcs) step2 False), step2))))"
  by (auto simp: priv_run_step_def get_agent_response_def process_message_def model_reply_def
        get_latest_tool_calls_def get_all_def put_def Let_def directives_def should_continue_def
      split: option.splits)


lemma make_output_is_last: "is_last (make_output eng r s d) = d"
  by (simp add: make_output_def Let_def)

lemma priv_run_step_output:
  assumes "priv_run_step eng step tsk mode tc = (Inr out, s)"
  shows "\<exists>r d. out = make_output eng r s d"
  using assms
  by (auto simp: priv_run_step_def Let_def split: prod.splits sum.splits option.splits if_splits)


lemma run_tool_calls_counter:
  assumes "run_tool_calls eng tools tcs s c = (r, s', c')"
      and "n_function_calls (step_state s) = Some n"
  shows "\<exists>k. n_function_calls (step_state s') = Some (n + int k) \<and> k \<le> length tcs"
  using assms
proof (induction tcs arbitrary: s c n)
  case Nil
  then show ?case by simp
next
  case (Cons tco rest)
  show ?case
  proof (cases "\<exists>tc srcs mem1 srcs1. tco = OpenAIToolCall tc \<and> tc_type tc = Some ''function''
            \<and> sources (step_state s) = Some srcs
            \<and> priv_call_function eng tools tc (memory s) srcs = Inr (mem1, srcs1)")
    case True
    then obtain tc srcs mem1 srcs1 where h: "tco = OpenAIToolCall tc" "tc_type tc = Some ''function''"
        "sources (step_state s) = Some srcs"
        "priv_call_function eng tools tc (memory s) srcs = Inr (mem1, srcs1)" by blast
    define s2 where "s2 = s\<lparr>memory := mem1,
        step_state := (step_state s)\<lparr>sources := Some srcs1, n_function_calls := Some (n + 1)\<rparr>\<rparr>"
    have run: "run_tool_calls eng tools rest s2 (reset_tool_choice c) = (r, s', c')"
      using Cons.prems h by (simp add: s2_def Let_def)
    have "n_function_calls (step_state s2) = Some (n + 1)" by (simp add: s2_def)
    from Cons.IH[OF run this] obtain k where
      "n_function_calls (step_state s') = Some (n + 1 + int k)" "k \<le> length rest" by blast
    then show ?thesis by (intro exI[of _ "Suc k"]) simp
  next
    case False
    then have "s' = s"
      using Cons.prems
      by (auto simp: Let_def split: tool_call_obj.splits if_splits option.splits sum.splits prod.splits)
    then show ?thesis using Cons.prems(2) by (intro exI[of _ 0]) simp
  qed
qed

lemma run_step_counter_nondecreasing:
  assumes "n_function_calls (step_state step) = Some n"
  shows "\<exists>k. n_function_calls (step_state (snd (run_step eng step tsk kw))) = Some (n + int k)"
proof -
  define ch where "ch = kwargs_get_tool_choice kw"
  define reply where "reply = model_reply eng step tsk ch"
  define step1 where "step1 = step\<lparr>memory := memory step @ [reply]\<rparr>"
  have n1: "n_function_calls (step_state step1) = Some n" using assms by (simp add: step1_def)
  obtain r step2 ch2 where run:
    "run_tool_calls eng (get_tools eng (task_input tsk)) (directives reply) step1 ch = (r, step2, ch2)"
    using prod_cases3 by blast
  from run_tool_calls_counter[OF run n1] obtain k where
    k: "n_function_calls (step_state step2) = Some (n + int k)" by blast
  have "snd (run_step eng step tsk kw) = step1 \<or> snd (run_step eng step tsk kw) = step2"
    using run
    by (auto simp: run_step_def priv_run_step_WAIT Let_def ch_def[symmetric] reply_def[symmetric]
          step1_def[symmetric] split: option.splits)
  then show ?thesis
    using n1 k by (metis add.right_neutral of_nat_0)
qed

lemma follow_up_step_state:
  assumes "priv_run_step eng step tsk mode ch = (Inr out, s)"
  shows "list_all (\<lambda>nxt. step_state nxt = default_step_state eng \<and> memory nxt = memory s)
           (next_steps out)"
proof -
  from priv_run_step_output[OF assms] obtain r d where "out = make_output eng r s d" by blast
  then show ?thesis by (simp add: make_output_def Let_def)
qed

section \<open>Blocking and non-blocking tool calls\<close>

text \<open>
  The blocking call catches what the tool raises. The non-blocking call agrees with it,
  and the two step functions agree, when the model client answers alike in both forms and
  no tool raises.
\<close>

lemma call_tool_with_error_handling_catches:
  assumes "call t input_dict = Inl e"
  shows "call_tool_with_error_handling t input_dict None False
           = Inr \<lparr> content = ''Error: '' @ e, tool_name = metadata_name t,
                   raw_input = JDict [(''kwargs'', input_dict)], raw_output = RawError e \<rparr>"
  using assms by (simp add: call_tool_with_error_handling_def)

lemma call_function_never_tool_exception:
  "call_function loads tools tc vb \<noteq> Inl (ToolException e)"
  by (auto simp: call_function_def call_tool_with_error_handling_def get_function_by_name_def
      split: option.splits sum.splits)

lemma acall_function_eq_call_function:
  assumes "\<forall>t \<in> set tools. \<forall>args. acall t args = call t args \<and> (\<forall>e. call t args \<noteq> Inl e)"
  shows "acall_function loads tools tc vb = call_function loads tools tc vb"
proof -
  have "\<And>name t args. get_function_by_name tools name = Inr t \<Longrightarrow>
          (case acall t args of Inl e \<Rightarrow> Inl (ToolException e) | Inr out \<Rightarrow> Inr (f out))
        = (case call_tool_with_error_handling t args None False of Inl e \<Rightarrow> Inl e | Inr out \<Rightarrow> Inr (f out))"
    for f :: "tool_output \<Rightarrow> chat_message \<times> tool_output"
  proof -
    fix name t args
    assume "get_function_by_name tools name = Inr t"
    then have "t \<in> set tools" using get_function_by_name_member by blast
    then have "acall t args = call t args" "\<forall>e. call t args \<noteq> Inl e" using assms by auto
    then show "(case acall t args of Inl e \<Rightarrow> Inl (ToolException e) | Inr out \<Rightarrow> Inr (f out))
        = (case call_tool_with_error_handling t args None False of Inl e \<Rightarrow> Inl e | Inr out \<Rightarrow> Inr (f out))"
      by (cases "call t args") (simp_all add: call_tool_with_error_handling_def)
  qed
  then show ?thesis
    by (simp add: acall_function_def call_function_def split: option.splits sum.splits)
qed

lemma arun_tool_calls_eq_run_tool_calls:
  assumes "\<forall>t \<in> set tools. \<forall>args. acall t args = call t args \<and> (\<forall>e. call t args \<noteq> Inl e)"
  shows "arun_tool_calls eng tools tcs s c = run_tool_calls eng tools tcs s c"
proof (induction tcs arbitrary: s c)
  case Nil
  show ?case by simp
next
  case (Cons tco rest)
  have "\<And>tc mem srcs. priv_acall_function eng tools tc mem srcs = priv_call_function eng tools tc mem srcs"
    by (simp add: priv_acall_function_def priv_call_function_def
          acall_function_eq_call_function[OF assms] split: option.splits sum.splits)
  then show ?case
    using Cons.IH
    by (simp add: Let_def split: tool_call_obj.splits option.splits sum.splits prod.splits)
qed

lemma arun_step_eq_run_step:
  assumes "llm_achat eng = llm_chat eng"
      and "\<forall>t \<in> set (get_tools eng (task_input tsk)).
             \<forall>args. acall t args = call t args \<and> (\<forall>e. call t args \<noteq> Inl e)"
  shows "arun_step eng step tsk kw = run_step eng step tsk kw"
  using assms(1)
  by (simp add: arun_step_def run_step_def priv_arun_step_def priv_run_step_def
        get_async_agent_response_def get_agent_response_def Let_def
        arun_tool_calls_eq_run_tool_calls[OF assms(2)]
      split: prod.splits sum.splits option.splits)

section \<open>The local tool-selection policy\<close>

text \<open>
  A pinned name is sent to the model as a forced selection; once the loop has processed a
  directive its local variable holds "auto".
\<close>

lemma run_tool_calls_resets_local:
  assumes "run_tool_calls eng tools (tco # rest) s c = (None, s', c')"
      and "c \<noteq> JStr ''none''"
  shows "c' = JStr ''auto''"
proof -
  have loop: "run_tool_calls eng tools tcs s1 (JStr ''auto'') = (r, s2, c2) \<Longrightarrow> c2 = JStr ''auto''"
    for tcs s1 r s2 c2
    by (induction tcs arbitrary: s1)
       (auto simp: Let_def reset_tool_choice_def
          split: tool_call_obj.splits if_splits option.splits sum.splits prod.splits)
  from run_tool_calls_Cons_None[OF assms(1)] obtain s1 where
    "run_tool_calls eng tools rest s1 (reset_tool_choice c) = (None, s', c')" by blast
  moreover have "reset_tool_choice c = JStr ''auto''"
    using assms(2) by (simp add: reset_tool_choice_def)
  ultimately show ?thesis using loop by simp
qed

lemma pinned_choice_forced:
  assumes "name \<noteq> ''none''" "name \<noteq> ''auto''" "openai_tools \<noteq> []"
  shows "kw_tool_choice (get_llm_chat_kwargs eng step openai_tools (JStr name))
           = Some (JDict [(''type'', JStr ''function''), (''function'', JDict [(''name'', JStr name)])])"
  using assms by (simp add: get_llm_chat_kwargs_def resolve_tool_choice_def)

text \<open>Unfolding sets for evaluating the engine on the concrete inputs.\<close>

lemmas example_defs = example_engine_def example_step_def example_task_def directive_def
  example_call_def assistant_reply_def add_tool_def boom_tool_def example_loads_def
  user_message_def echo_engine_def echo_llm_def policy_text_def
  two_add_reply_def one_add_reply_def boom_reply_def
  scenario_engine_def scenario_llm_def add_output_def follow_up_step_def

lemmas engine_defs = run_step_def arun_step_def priv_run_step_def priv_arun_step_def
  kwargs_get_tool_choice_def get_agent_response_def get_async_agent_response_def
  process_message_def get_latest_tool_calls_def get_llm_chat_kwargs_def get_all_messages_def
  resolve_tool_choice_def should_continue_def make_output_def current_response_def
  priv_call_function_def priv_acall_function_def call_function_def acall_function_def
  get_function_by_name_def name_to_tool_def call_tool_with_error_handling_def tool_message_def
  str_tool_output_def str_content_def put_def get_all_def get_def reset_tool_choice_def
  model_reply_def directives_def directive_id_def Let_def

section \<open>The continuation predicate\<close>

text \<open>
  Claim C2. The continuation predicate is true exactly when the latest reply carries at
  least one tool directive and the invocation counter is not strictly greater than the
  configured maximum; with maximum 1 and counter 1 and a directive present it is still
  true, the boundary being "exceeds", not "reaches".
\<close>

theorem should_continue_iff:
  "should_continue eng tool_calls n =
     ((\<exists>tcs. tool_calls = Some tcs \<and> tcs \<noteq> []) \<and> \<not> n > max_function_calls eng)
   \<and> should_continue (eng\<lparr>max_function_calls := 1\<rparr>) (Some [tco]) 1"
  by (cases tool_calls) (simp_all add: should_continue_def)

section \<open>Terminal steps\<close>





section \<open>The conversation log\<close>

text \<open>
  Claim C7. Every call of \<open>run_step\<close>, returning or raising, leaves the log as the log
  before, then the reply of the model, then tool-result messages: the old log is a prefix
  of the new one, the messages carry the correlation identifiers of the directives in the
  order the model listed them, one for each directive the loop got through; a returning
  terminal step adds none and a returning non-terminal step adds one per directive.
\<close>

theorem run_step_log_append_only:
  "\<exists>msgs. memory (snd (run_step eng step tsk kw))
            = memory step @ model_reply eng step tsk (kwargs_get_tool_choice kw) # msgs
      \<and> prefix (memory step) (memory (snd (run_step eng step tsk kw)))
      \<and> length (memory step) \<le> length (memory (snd (run_step eng step tsk kw)))
      \<and> map kw_tool_call_id msgs
          = map directive_id (take (length msgs)
              (directives (model_reply eng step tsk (kwargs_get_tool_choice kw))))
      \<and> list_all (\<lambda>m. role m = TOOL) msgs
      \<and> (\<forall>out. fst (run_step eng step tsk kw) = Inr out \<longrightarrow>
            length msgs = (if is_last out then 0
               else length (directives (model_reply eng step tsk (kwargs_get_tool_choice kw)))))"
proof -
  define tc where "tc = kwargs_get_tool_choice kw"
  define reply where "reply = model_reply eng step tsk tc"
  define step1 where "step1 = step\<lparr>memory := memory step @ [reply]\<rparr>"
  define res where "res = run_step eng step tsk kw"
  have goal: "\<exists>msgs. memory (snd res) = memory step @ reply # msgs
      \<and> map kw_tool_call_id msgs = map directive_id (take (length msgs) (directives reply))
      \<and> list_all (\<lambda>m. role m = TOOL) msgs
      \<and> (\<forall>out. fst res = Inr out \<longrightarrow>
            length msgs = (if is_last out then 0 else length (directives reply)))"
  proof (cases "\<exists>srcs n. sources (step_state step) = Some srcs
                  \<and> n_function_calls (step_state step) = Some n
                  \<and> should_continue eng (kw_tool_calls reply) n")
    case True
    then obtain srcs n where h: "sources (step_state step) = Some srcs"
      "n_function_calls (step_state step) = Some n" "should_continue eng (kw_tool_calls reply) n"
      by blast
    obtain r step2 tc2 where run:
      "run_tool_calls eng (get_tools eng (task_input tsk)) (directives reply) step1 tc = (r, step2, tc2)"
      using prod_cases3 by blast
    from run_tool_calls_log[OF run] obtain msgs where
      m: "memory step2 = memory step1 @ msgs"
         "map kw_tool_call_id msgs = map directive_id (take (length msgs) (directives reply))"
         "r = None \<longrightarrow> length msgs = length (directives reply)"
         "list_all (\<lambda>m. role m = TOOL) msgs" by blast
    have res: "res = (case r of Some e \<Rightarrow> (Inl e, step2)
        | None \<Rightarrow> (Inr (make_output eng (AgentChatResponse (str_content (msg_content reply)) srcs) step2 False), step2))"
      using h run
      by (simp add: res_def run_step_def priv_run_step_WAIT Let_def tc_def[symmetric]
            reply_def[symmetric] step1_def[symmetric] split: option.splits)
    have "memory (snd res) = memory step @ reply # msgs"
      using res m(1) by (simp add: step1_def split: option.splits)
    moreover have "\<forall>out. fst res = Inr out \<longrightarrow>
            length msgs = (if is_last out then 0 else length (directives reply))"
      using res m(3) by (auto simp: make_output_is_last split: option.splits)
    ultimately show ?thesis using m(2,4) by blast
  next
    case False
    then have "memory (snd res) = memory step @ [reply] \<and> (\<forall>out. fst res = Inr out \<longrightarrow> is_last out)"
      by (auto simp: res_def run_step_def priv_run_step_WAIT Let_def tc_def[symmetric]
            reply_def[symmetric] make_output_is_last split: option.splits)
    then show ?thesis by (intro exI[of _ "[]"]) simp
  qed
  then obtain msgs where g: "memory (snd res) = memory step @ reply # msgs"
      "map kw_tool_call_id msgs = map directive_id (take (length msgs) (directives reply))"
      "list_all (\<lambda>m. role m = TOOL) msgs"
      "\<forall>out. fst res = Inr out \<longrightarrow>
            length msgs = (if is_last out then 0 else length (directives reply))" by blast
  have "prefix (memory step) (memory (snd res))" "length (memory step) \<le> length (memory (snd res))"
    using g(1) by (simp_all add: prefix_def)
  then show ?thesis
    using g unfolding res_def reply_def tc_def by blast
qed


theorem run_step_log_append_only_witness:
  "length (memory (snd (run_step (example_engine 5 (assistant_reply ''x''
        (Some [directive ''c1'' ''function'' ''add'', directive ''c2'' ''function'' ''boom''])))
        (example_step 0) example_task None))) = 4
   \<and> prefix [user_message ''What is 2+2?'']
        (memory (snd (run_step (example_engine 5 (assistant_reply ''x''
          (Some [directive ''c1'' ''function'' ''add'', directive ''c2'' ''function'' ''boom''])))
          (example_step 0) example_task None)))"
proof -
  define E where "E = example_engine 5 (assistant_reply ''x''
        (Some [directive ''c1'' ''function'' ''add'', directive ''c2'' ''function'' ''boom'']))"
  define res where "res = run_step E (example_step 0) example_task None"
  have out: "\<exists>out. fst res = Inr out \<and> \<not> is_last out"
    by (simp add: res_def E_def example_defs engine_defs)
  have dirs: "length (directives (model_reply E (example_step 0) example_task (kwargs_get_tool_choice None))) = 2"
    by (simp add: E_def example_defs engine_defs)
  have mem: "memory (example_step 0) = [user_message ''What is 2+2?'']"
    by (simp add: example_step_def)
  from run_step_log_append_only[of E "example_step 0" example_task None]
  obtain msgs where
    m: "memory (snd res) = memory (example_step 0)
          @ model_reply E (example_step 0) example_task (kwargs_get_tool_choice None) # msgs"
       "prefix (memory (example_step 0)) (memory (snd res))"
       "\<forall>out. fst res = Inr out \<longrightarrow> length msgs = (if is_last out then 0
          else length (directives (model_reply E (example_step 0) example_task (kwargs_get_tool_choice None))))"
    unfolding res_def by blast
  have "length msgs = 2" using m(3) out dirs by auto
  then have "length (memory (snd res)) = 4" using m(1) mem by simp
  then show ?thesis using m(2) mem unfolding res_def E_def by simp
qed

section \<open>Errors raised by a step\<close>

text \<open>
  Claim C10. When the directive at position k of a reply fails the per-directive validation
  and the k-1 directives before it are processed, \<open>run_step\<close> raises the validation
  error and the step keeps the effects of those k-1 directives: their tool-result messages
  after the reply in the log, their outputs in the sources, k-1 added to the counter. The
  step is not what it was before the call.
\<close>

theorem run_step_no_rollback:
  assumes "sources (step_state step) = Some srcs"
      and "n_function_calls (step_state step) = Some n"
      and "n \<le> max_function_calls eng"
      and "kw_tool_calls (model_reply eng step tsk (kwargs_get_tool_choice kw)) = Some (pre @ bad # post)"
      and "list_all (processable eng (get_tools eng (task_input tsk))) pre"
      and "invalid_directive bad"
  shows "\<exists>msgs outs.
           fst (run_step eng step tsk kw) = Inl (validation_error bad)
         \<and> memory (snd (run_step eng step tsk kw))
             = memory step @ model_reply eng step tsk (kwargs_get_tool_choice kw) # msgs
         \<and> length msgs = length pre
         \<and> sources (step_state (snd (run_step eng step tsk kw))) = Some (srcs @ outs)
         \<and> length outs = length pre
         \<and> map msg_content msgs = map (\<lambda>out. Some (content out)) outs
         \<and> n_function_calls (step_state (snd (run_step eng step tsk kw))) = Some (n + int (length pre))
         \<and> snd (run_step eng step tsk kw) \<noteq> step"
proof -
  define tc where "tc = kwargs_get_tool_choice kw"
  define reply where "reply = model_reply eng step tsk tc"
  define step1 where "step1 = step\<lparr>memory := memory step @ [reply]\<rparr>"
  define tools where "tools = get_tools eng (task_input tsk)"
  have wf1: "sources (step_state step1) = Some srcs" "n_function_calls (step_state step1) = Some n"
    using assms(1,2) by (simp_all add: step1_def)
  obtain r step2 tc2 where pre: "run_tool_calls eng tools pre step1 tc = (r, step2, tc2)"
    using prod_cases3 by blast
  have "r = None"
    using run_tool_calls_complete[OF assms(5)[folded tools_def] wf1, of tc] pre by simp
  with pre have pre: "run_tool_calls eng tools pre step1 tc = (None, step2, tc2)" by simp
  from run_tool_calls_effects[OF pre wf1] obtain msgs outs where
    e: "memory step2 = memory step1 @ msgs" "length msgs = length pre"
       "sources (step_state step2) = Some (srcs @ outs)" "length outs = length pre"
       "n_function_calls (step_state step2) = Some (n + int (length pre))"
       "map msg_content msgs = map (\<lambda>out. Some (content out)) outs" by blast
  have loop: "run_tool_calls eng tools (pre @ bad # post) step1 tc = (Some (validation_error bad), step2, tc2)"
    using pre run_tool_calls_invalid[OF assms(6)] by (simp add: run_tool_calls_append)
  have cont: "should_continue eng (kw_tool_calls reply) n"
    using assms(3,4) by (simp add: should_continue_def reply_def tc_def)
  have dirs: "directives reply = pre @ bad # post"
    using assms(4) by (simp add: directives_def reply_def tc_def)
  have res: "run_step eng step tsk kw = (Inl (validation_error bad), step2)"
    using assms(1,2) cont loop dirs
    by (simp add: run_step_def priv_run_step_WAIT Let_def tc_def[symmetric] reply_def[symmetric]
          step1_def[symmetric] tools_def[symmetric])
  have "memory step2 \<noteq> memory step" using e(1) by (simp add: step1_def)
  then have "step2 \<noteq> step" by auto
  then show ?thesis
    using res e unfolding reply_def tc_def step1_def by (intro exI[of _ msgs] exI[of _ outs]) simp
qed


theorem run_step_no_rollback_witness:
  "fst (run_step (example_engine 5 (assistant_reply ''x''
          (Some [directive ''c1'' ''function'' ''add'', directive ''c2'' ''code_interpreter'' ''add''])))
        (example_step 0) example_task None)
     = Inl (ValueError ''Invalid tool type. Unsupported by OpenAI'')
   \<and> n_function_calls (step_state (snd (run_step (example_engine 5 (assistant_reply ''x''
          (Some [directive ''c1'' ''function'' ''add'', directive ''c2'' ''code_interpreter'' ''add''])))
        (example_step 0) example_task None))) = Some 1
   \<and> snd (run_step (example_engine 5 (assistant_reply ''x''
          (Some [directive ''c1'' ''function'' ''add'', directive ''c2'' ''code_interpreter'' ''add''])))
        (example_step 0) example_task None) \<noteq> example_step 0"
proof -
  define E where "E = example_engine 5 (assistant_reply ''x''
          (Some [directive ''c1'' ''function'' ''add'', directive ''c2'' ''code_interpreter'' ''add'']))"
  have h: "sources (step_state (example_step 0)) = Some []"
    "n_function_calls (step_state (example_step 0)) = Some 0"
    "0 \<le> max_function_calls E"
    "kw_tool_calls (model_reply E (example_step 0) example_task (kwargs_get_tool_choice None))
       = Some ([directive ''c1'' ''function'' ''add''] @ directive ''c2'' ''code_interpreter'' ''add'' # [])"
    "list_all (processable E (get_tools E (task_input example_task))) [directive ''c1'' ''function'' ''add'']"
    "invalid_directive (directive ''c2'' ''code_interpreter'' ''add'')"
    by (simp_all add: E_def processable_def invalid_directive_def example_defs engine_defs)
  have v: "validation_error (directive ''c2'' ''code_interpreter'' ''add'')
             = ValueError ''Invalid tool type. Unsupported by OpenAI''"
    by (simp add: validation_error_def directive_def)
  from run_step_no_rollback[OF h] show ?thesis
    unfolding E_def v by auto
qed


text \<open>
  Claim C6, as amended. When the continuation predicate lets the loop run (the counter is
  not above the maximum), the directives before it are processed, and a directive of kind
  "function" carrying a name and arguments names a tool that is not in the resolved set,
  \<open>run_step\<close> raises the lookup's ValueError; the log holds the reply and the messages of
  the earlier directives only, and the sources hold the outputs of the earlier directives
  only.
\<close>

theorem run_step_unresolvable_tool:
  assumes "sources (step_state step) = Some srcs"
      and "n_function_calls (step_state step) = Some n"
      and "n \<le> max_function_calls eng"
      and "kw_tool_calls (model_reply eng step tsk (kwargs_get_tool_choice kw))
             = Some (pre @ OpenAIToolCall tc # post)"
      and "list_all (processable eng (get_tools eng (task_input tsk))) pre"
      and "tc_type tc = Some ''function''"
      and "tc_function tc = Some fc"
      and "fn_name fc = Some name"
      and "fn_arguments fc = Some arguments_str"
      and "name \<notin> metadata_name ` set (get_tools eng (task_input tsk))"
  shows "\<exists>msgs outs.
           fst (run_step eng step tsk kw) = Inl (ValueError (''Tool with name '' @ name @ '' not found''))
         \<and> memory (snd (run_step eng step tsk kw))
             = memory step @ model_reply eng step tsk (kwargs_get_tool_choice kw) # msgs
         \<and> length msgs = length pre
         \<and> map kw_tool_call_id msgs = map directive_id pre
         \<and> sources (step_state (snd (run_step eng step tsk kw))) = Some (srcs @ outs)
         \<and> length outs = length pre"
proof -
  define ch where "ch = kwargs_get_tool_choice kw"
  define reply where "reply = model_reply eng step tsk ch"
  define step1 where "step1 = step\<lparr>memory := memory step @ [reply]\<rparr>"
  define tools where "tools = get_tools eng (task_input tsk)"
  have wf1: "sources (step_state step1) = Some srcs" "n_function_calls (step_state step1) = Some n"
    using assms(1,2) by (simp_all add: step1_def)
  obtain r step2 ch2 where pre: "run_tool_calls eng tools pre step1 ch = (r, step2, ch2)"
    using prod_cases3 by blast
  have "r = None"
    using run_tool_calls_complete[OF assms(5)[folded tools_def] wf1, of ch] pre by simp
  with pre have pre: "run_tool_calls eng tools pre step1 ch = (None, step2, ch2)" by simp
  from run_tool_calls_effects[OF pre wf1] obtain msgs outs where
    e: "memory step2 = memory step1 @ msgs" "length msgs = length pre"
       "sources (step_state step2) = Some (srcs @ outs)" "length outs = length pre"
       "map kw_tool_call_id msgs = map directive_id pre" by blast
  have loop: "run_tool_calls eng tools (pre @ OpenAIToolCall tc # post) step1 ch
      = (Some (ValueError (''Tool with name '' @ name @ '' not found'')), step2, ch2)"
    using pre run_tool_calls_unresolvable[OF assms(6-9) assms(10)[folded tools_def] e(3)]
    by (simp add: run_tool_calls_append)
  have cont: "should_continue eng (kw_tool_calls reply) n"
    using assms(3,4) by (simp add: should_continue_def reply_def ch_def)
  have dirs: "directives reply = pre @ OpenAIToolCall tc # post"
    using assms(4) by (simp add: directives_def reply_def ch_def)
  have res: "run_step eng step tsk kw
      = (Inl (ValueError (''Tool with name '' @ name @ '' not found'')), step2)"
    using assms(1,2) cont loop dirs
    by (simp add: run_step_def priv_run_step_WAIT Let_def ch_def[symmetric] reply_def[symmetric]
          step1_def[symmetric] tools_def[symmetric])
  show ?thesis
    using res e unfolding reply_def ch_def step1_def by (intro exI[of _ msgs] exI[of _ outs]) simp
qed

text \<open>
  The claim as stated fails when the counter is above the maximum: the reply names an
  unknown tool, the predicate ends the step, and nothing is raised.
\<close>

theorem unresolvable_beyond_max_counterexample:
  "raised (run_step (example_engine 5 (assistant_reply ''x'' (Some [directive ''c1'' ''function'' ''nope''])))
             (example_step 6) example_task None) = None"
  by (simp add: raised_def example_defs engine_defs)

theorem run_step_unresolvable_tool_witness:
  "fst (run_step (example_engine 5 (assistant_reply ''x''
            (Some [directive ''c1'' ''function'' ''add'', directive ''c2'' ''function'' ''nope''])))
          (example_step 0) example_task None)
     = Inl (ValueError ''Tool with name nope not found'')
   \<and> map msg_content (memory (snd (run_step (example_engine 5 (assistant_reply ''x''
            (Some [directive ''c1'' ''function'' ''add'', directive ''c2'' ''function'' ''nope''])))
          (example_step 0) example_task None))) = [Some ''What is 2+2?'', Some ''x'', Some ''4'']"
proof -
  define E where "E = example_engine 5 (assistant_reply ''x''
            (Some [directive ''c1'' ''function'' ''add'', directive ''c2'' ''function'' ''nope'']))"
  have h: "sources (step_state (example_step 0)) = Some []"
    "n_function_calls (step_state (example_step 0)) = Some 0"
    "0 \<le> max_function_calls E"
    "kw_tool_calls (model_reply E (example_step 0) example_task (kwargs_get_tool_choice None))
       = Some ([directive ''c1'' ''function'' ''add''] @ OpenAIToolCall (example_call ''c2'' ''function'' ''nope'') # [])"
    "list_all (processable E (get_tools E (task_input example_task))) [directive ''c1'' ''function'' ''add'']"
    "tc_type (example_call ''c2'' ''function'' ''nope'') = Some ''function''"
    "tc_function (example_call ''c2'' ''function'' ''nope'') = Some \<lparr> fn_name = Some ''nope'', fn_arguments = Some ''{}'' \<rparr>"
    "fn_name \<lparr> fn_name = Some ''nope'', fn_arguments = Some ''{}'' \<rparr> = Some ''nope''"
    "fn_arguments \<lparr> fn_name = Some ''nope'', fn_arguments = Some ''{}'' \<rparr> = Some ''{}''"
    "''nope'' \<notin> metadata_name ` set (get_tools E (task_input example_task))"
    by (simp_all add: E_def processable_def example_defs engine_defs)
  from run_step_unresolvable_tool[OF h] obtain msgs outs where
    r: "fst (run_step E (example_step 0) example_task None) = Inl (ValueError (''Tool with name '' @ ''nope'' @ '' not found''))"
    by blast
  have "map msg_content (memory (snd (run_step E (example_step 0) example_task None))) = [Some ''What is 2+2?'', Some ''x'', Some ''4'']"
    by (simp add: E_def example_defs engine_defs)
  then show ?thesis using r unfolding E_def by simp
qed

section \<open>Tool errors in the two forms of invocation\<close>

text \<open>
  Claim C3. A tool that raises, called through the blocking \<open>call_function\<close>, gives a
  ToolOutput whose content is the synthesized error text and whose raw output is the
  captured error; called through the non-blocking \<open>acall_function\<close>, the same tool's
  exception leaves the function: it is not turned into a ToolOutput.
\<close>

theorem acall_function_propagates_tool_error:
  "call_function example_loads [add_tool, boom_tool] (example_call ''c1'' ''function'' ''boom'') False
     = Inr (tool_message ''boom'' ''c1''
              \<lparr> content = ''Error: boom failed'', tool_name = ''boom'',
                raw_input = JDict [(''kwargs'', JDict [])], raw_output = RawError ''boom failed'' \<rparr>,
            \<lparr> content = ''Error: boom failed'', tool_name = ''boom'',
              raw_input = JDict [(''kwargs'', JDict [])], raw_output = RawError ''boom failed'' \<rparr>)
   \<and> acall_function example_loads [add_tool, boom_tool] (example_call ''c1'' ''function'' ''boom'') False
     = Inl (ToolException ''boom failed'')"
  by (simp add: example_defs engine_defs)

text \<open>
  Claim C4. On the same step, task and reply, a directive for a tool that raises makes the
  blocking step return a non-terminal output, with the counter at 1 and the tool-result
  message in the log, while the non-blocking step raises, with the counter at 0 and the
  reply alone added to the log.
\<close>

theorem arun_step_differs_from_run_step:
  "map_option is_last (produced (run_step (example_engine 5 boom_reply) (example_step 0) example_task None)) = Some False
   \<and> n_function_calls (step_state (snd (run_step (example_engine 5 boom_reply) (example_step 0) example_task None))) = Some 1
   \<and> map msg_content (memory (snd (run_step (example_engine 5 boom_reply) (example_step 0) example_task None)))
       = [Some ''What is 2+2?'', Some ''x'', Some ''Error: boom failed'']
   \<and> raised (arun_step (example_engine 5 boom_reply) (example_step 0) example_task None)
       = Some (ToolException ''boom failed'')
   \<and> n_function_calls (step_state (snd (arun_step (example_engine 5 boom_reply) (example_step 0) example_task None))) = Some 0
   \<and> map msg_content (memory (snd (arun_step (example_engine 5 boom_reply) (example_step 0) example_task None)))
       = [Some ''What is 2+2?'', Some ''x'']"
  by (simp add: produced_def raised_def example_defs engine_defs)

section \<open>The streaming entry points\<close>

text \<open>
  Claim C9, as amended. The blocking streaming entry point raises NotImplementedError for
  every step and task and returns no output, as the non-blocking one does; neither touches
  the step.
\<close>

theorem stream_step_not_implemented:
  "stream_step eng step tsk kw = (Inl NotImplementedError, step)
   \<and> astream_step eng step tsk kw = (Inl NotImplementedError, step)"
  by (simp add: stream_step_def astream_step_def)

text \<open>The claim as stated fails on any input: no output comes back.\<close>

theorem stream_step_counterexample:
  "produced (stream_step (example_engine 5 (assistant_reply ''4'' None)) (example_step 0) example_task None)
     = None"
  by (simp add: produced_def stream_step_def)

section \<open>The cap on tool invocations\<close>

text \<open>
  Claim C1. With the maximum at 1: a step from \<open>initialize_step\<close> whose reply carries two
  directives runs both tools and leaves the counter at 2; a step whose counter already
  stands at 1 runs one more tool and leaves it at 2; and the follow-up step the engine
  builds has no counter in its scratch dictionary.
\<close>

theorem max_function_calls_exceeded:
  "max_function_calls (example_engine 1 two_add_reply) = 1
   \<and> n_function_calls (step_state (initialize_step (example_engine 1 two_add_reply)
         example_task)) = Some 0
   \<and> n_function_calls (step_state (snd (run_step (example_engine 1 two_add_reply)
       (initialize_step (example_engine 1 two_add_reply)
         example_task) example_task None))) = Some 2
   \<and> map_option (map content) (sources (step_state (snd (run_step (example_engine 1 two_add_reply)
       (initialize_step (example_engine 1 two_add_reply)
         example_task) example_task None)))) = Some [''4'', ''4'']
   \<and> n_function_calls (step_state (snd (run_step (example_engine 1 one_add_reply)
       (example_step 1) example_task None))) = Some 2
   \<and> map_option (map (\<lambda>nxt. n_function_calls (step_state nxt)) \<circ> next_steps)
       (produced (run_step (example_engine 1 one_add_reply)
       (example_step 1) example_task None)) = Some [None]"
  by (simp add: produced_def initialize_step_def example_defs engine_defs)


section \<open>A pinned tool choice\<close>

text \<open>
  Claim C8. With the tool "add" pinned by the caller on every call, the model of the first
  step is called with the forced selection, and so is the model of the next step, on the
  follow-up step the engine built and on the step with the scratch state the first call
  left; the policy is "auto" there only when the caller passes none.
\<close>

theorem pinned_tool_choice_persists:
  "map msg_content (memory (snd (run_step echo_engine (example_step 0) example_task (Some (JStr ''add'')))))
     = [Some ''What is 2+2?'', Some ''forced'', Some ''4'']
   \<and> map_option (map (\<lambda>nxt. map msg_content
         (memory (snd (run_step echo_engine nxt example_task (Some (JStr ''add'')))))) \<circ> next_steps)
       (produced (run_step echo_engine (example_step 0) example_task (Some (JStr ''add''))))
     = Some [[Some ''What is 2+2?'', Some ''forced'', Some ''4'', Some ''forced'']]
   \<and> map msg_content (memory (snd (run_step echo_engine
         (snd (run_step echo_engine (example_step 0) example_task (Some (JStr ''add''))))
         example_task (Some (JStr ''add'')))))
     = [Some ''What is 2+2?'', Some ''forced'', Some ''4'', Some ''forced'', Some ''4'']
   \<and> map msg_content (memory (snd (run_step echo_engine
         (snd (run_step echo_engine (example_step 0) example_task (Some (JStr ''add''))))
         example_task None)))
     = [Some ''What is 2+2?'', Some ''forced'', Some ''4'', Some ''auto'', Some ''4'']"
  by (simp add: produced_def example_defs engine_defs)

end
